theory Spec2Isabelle
  imports Complex_Main "HOL-Library.AList"
begin

section \<open>Data model of \<open>Task.py\<close>\<close>

text \<open>
  \<open>SalesPredictor\<close> works on three pandas data frames: the table \<open>historical_sales\<close>,
  the table \<open>sales_patterns\<close> and the test observations. A data frame is modelled as its
  columns in order, each a name with its cells. Cells are real numbers (the idealisation
  of IEEE doubles that the specification's data model uses); the frames read back from
  SQL have pairwise distinct column names and all columns of one frame have the same
  number of rows. A table that \<open>read_sales_table\<close> could not read is \<open>None\<close>.

  A value computed from two series of different lengths can be NaN, because pandas aligns
  series on their row index: such a value is a \<open>real option\<close> with \<open>None\<close> for NaN.
\<close>

datatype py_error =
    ValueError
  | KeyError string
  | InvalidSalesDataError string

type_synonym dataframe = "(string \<times> real list) list"

text \<open>\<open>min_dev\<close> starts as \<open>float('inf')\<close> and is later a finite deviation.\<close>

datatype min_dev = Infinity | Finite real

text \<open>One tuple \<open>(x_val, y_val, min_dev, best_match)\<close> of \<open>forecast_results\<close>.\<close>

type_synonym forecast_row = "real \<times> real \<times> min_dev \<times> string option"

definition columns :: "dataframe \<Rightarrow> string list" where
  "columns df = map fst df"

text \<open>\<open>df[c]\<close>: the column named \<open>c\<close>, \<open>KeyError\<close> when there is none.\<close>

definition getitem :: "dataframe \<Rightarrow> string \<Rightarrow> py_error + real list" where
  "getitem df c = (case map_of df c of None \<Rightarrow> Inl (KeyError c) | Some s \<Rightarrow> Inr s)"

text \<open>
  \<open>a - b\<close> on two series with the default row index \<open>0, 1, ...\<close>: the rows both have are
  subtracted, a row only one of them has gives NaN.
\<close>

fun series_sub :: "real list \<Rightarrow> real list \<Rightarrow> real option list" where
  "series_sub [] [] = []"
| "series_sub (a # as) [] = None # series_sub as []"
| "series_sub [] (b # bs) = None # series_sub [] bs"
| "series_sub (a # as) (b # bs) = Some (a - b) # series_sub as bs"

text \<open>\<open>np.sum\<close> of a series is the series' own \<open>sum\<close>, which skips NaN.\<close>

definition np_sum :: "real option list \<Rightarrow> real" where
  "np_sum vs = sum_list (map (\<lambda>v. case v of None \<Rightarrow> 0 | Some r \<Rightarrow> r) vs)"

text \<open>\<open>np.sum((a - b) ** 2)\<close>, line 94.\<close>

definition sq_error :: "real list \<Rightarrow> real list \<Rightarrow> real" where
  "sq_error a b = np_sum (map (map_option (\<lambda>d. d ^ 2)) (series_sub a b))"

section \<open>\<open>identify_best_sales_patterns\<close>\<close>

text \<open>
  The dictionaries \<open>errors\<close> and \<open>best_patterns\<close> keep their keys in insertion order;
  storing under a key that is present replaces its value in place
  (\<^const>\<open>AList.update\<close>).

  The dict comprehension of lines 93 to 96, over \<open>pattern_df.columns[1:]\<close>.
\<close>

fun errors_dict ::
  "dataframe \<Rightarrow> dataframe \<Rightarrow> string \<Rightarrow> string list \<Rightarrow> (string \<times> real) list
    \<Rightarrow> py_error + (string \<times> real) list" where
  "errors_dict training_sales_df pattern_df week_col [] errors = Inr errors"
| "errors_dict training_sales_df pattern_df week_col (pattern_col # rest) errors =
     (case getitem training_sales_df week_col of
        Inl e \<Rightarrow> Inl e
      | Inr w \<Rightarrow>
          (case getitem pattern_df pattern_col of
             Inl e \<Rightarrow> Inl e
           | Inr p \<Rightarrow>
               errors_dict training_sales_df pattern_df week_col rest
                 (AList.update pattern_col (sq_error w p) errors)))"

text \<open>
  \<open>min(errors, key=errors.get)\<close>: the keys are visited in order and the current minimum
  is replaced only by a strictly smaller value; an empty dictionary raises
  \<open>ValueError\<close>.
\<close>

fun min_loop :: "string \<times> real \<Rightarrow> (string \<times> real) list \<Rightarrow> string \<times> real" where
  "min_loop best [] = best"
| "min_loop best (kv # kvs) = min_loop (if snd kv < snd best then kv else best) kvs"

definition py_min_key :: "(string \<times> real) list \<Rightarrow> py_error + string" where
  "py_min_key errors =
     (case errors of [] \<Rightarrow> Inl ValueError | kv # kvs \<Rightarrow> Inr (fst (min_loop kv kvs)))"

text \<open>The loop of lines 92 to 97 over \<open>training_sales_df.columns[1:]\<close>.\<close>

fun best_loop ::
  "dataframe \<Rightarrow> dataframe \<Rightarrow> string list \<Rightarrow> (string \<times> string) list
    \<Rightarrow> py_error + (string \<times> string) list" where
  "best_loop training_sales_df pattern_df [] best_patterns = Inr best_patterns"
| "best_loop training_sales_df pattern_df (week_col # rest) best_patterns =
     (case errors_dict training_sales_df pattern_df week_col (tl (columns pattern_df)) [] of
        Inl e \<Rightarrow> Inl e
      | Inr errors \<Rightarrow>
          (case py_min_key errors of
             Inl e \<Rightarrow> Inl e
           | Inr r \<Rightarrow>
               best_loop training_sales_df pattern_df rest
                 (AList.update week_col r best_patterns)))"

text \<open>
  The result is either an exception that leaves the function, or the messages logged at
  level ERROR together with the returned dictionary.
\<close>

definition identify_best_sales_patterns ::
  "dataframe option \<Rightarrow> dataframe option
    \<Rightarrow> py_error + (string list \<times> (string \<times> string) list)" where
  "identify_best_sales_patterns training_sales_df pattern_df =
     (case training_sales_df of
        None \<Rightarrow> Inr ([''Missing historical or pattern sales data.''], [])
      | Some t \<Rightarrow>
          (case pattern_df of
             None \<Rightarrow> Inr ([''Missing historical or pattern sales data.''], [])
           | Some p \<Rightarrow>
               (case best_loop t p (tl (columns t)) [] of
                  Inl e \<Rightarrow> Inl e
                | Inr best_patterns \<Rightarrow> Inr ([], best_patterns))))"

section \<open>\<open>load_and_predict_weekly_sales\<close>\<close>

text \<open>
  The builtin \<open>max\<close> over the values of a series: it starts from the first value and
  replaces the current one only by a value that compares greater; every comparison with
  NaN is false. An empty series raises \<open>ValueError\<close>.
\<close>

fun py_gt :: "real option \<Rightarrow> real option \<Rightarrow> bool" where
  "py_gt (Some a) (Some b) = (b < a)"
| "py_gt _ _ = False"

fun max_loop :: "real option \<Rightarrow> real option list \<Rightarrow> real option" where
  "max_loop cur [] = cur"
| "max_loop cur (v # vs) = max_loop (if py_gt v cur then v else cur) vs"

definition py_max :: "real option list \<Rightarrow> py_error + real option" where
  "py_max vs = (case vs of [] \<Rightarrow> Inl ValueError | v # rest \<Rightarrow> Inr (max_loop v rest))"

text \<open>
  \<open>max(abs(training_df[week_col] - pattern_df[pattern_col])) * np.sqrt(2)\<close>, line 135,
  on the two columns. The factor is the parameter \<open>margin\<close>; the program uses
  \<open>sqrt 2\<close> (see \<open>np_sqrt2\<close> below).
\<close>

definition max_dev_of :: "real \<Rightarrow> real list \<Rightarrow> real list \<Rightarrow> py_error + real option" where
  "max_dev_of margin w p =
     (case py_max (map (map_option abs) (series_sub w p)) of
        Inl e \<Rightarrow> Inl e
      | Inr m \<Rightarrow> Inr (map_option (\<lambda>v. v * margin) m))"

text \<open>
  \<open>pattern_df.loc[pattern_df["x"] == x_val, pattern_col].values\<close>, line 136: the cells
  of the pattern column in the rows whose \<open>x\<close> equals \<open>x_val\<close>, in row order.
\<close>

definition loc_values :: "real list \<Rightarrow> real \<Rightarrow> real list \<Rightarrow> real list" where
  "loc_values xs x_val p = map snd (filter (\<lambda>xv. fst xv = x_val) (zip xs p))"

text \<open>\<open>deviation <= max_dev\<close>, false when \<open>max_dev\<close> is NaN.\<close>

fun le_max_dev :: "real \<Rightarrow> real option \<Rightarrow> bool" where
  "le_max_dev d None = False"
| "le_max_dev d (Some m) = (d \<le> m)"

text \<open>\<open>deviation < min_dev\<close>.\<close>

fun lt_min_dev :: "real \<Rightarrow> min_dev \<Rightarrow> bool" where
  "lt_min_dev d Infinity = True"
| "lt_min_dev d (Finite m) = (d < m)"

text \<open>
  One pass of the body of the inner loop, lines 131 to 141, for the item
  \<open>(week_col, pattern_col)\<close> of \<open>best_patterns\<close>, from the current
  \<open>(best_match, min_dev)\<close> to the next. The margin of every historical series is given
  by \<open>margin\<close>.
\<close>

definition inner_step ::
  "(string \<Rightarrow> real) \<Rightarrow> dataframe \<Rightarrow> dataframe \<Rightarrow> real \<Rightarrow> real
    \<Rightarrow> string option \<times> min_dev \<Rightarrow> string \<times> string
    \<Rightarrow> py_error + (string option \<times> min_dev)" where
  "inner_step margin training_df pattern_df x_val y_val st item =
     (let week_col = fst item; pattern_col = snd item in
      if pattern_col \<notin> set (columns pattern_df) then Inr st
      else
        (case getitem training_df week_col of
           Inl e \<Rightarrow> Inl e
         | Inr w \<Rightarrow>
             (case getitem pattern_df pattern_col of
                Inl e \<Rightarrow> Inl e
              | Inr p \<Rightarrow>
                  (case max_dev_of (margin week_col) w p of
                     Inl e \<Rightarrow> Inl e
                   | Inr max_dev \<Rightarrow>
                       (case getitem pattern_df ''x'' of
                          Inl e \<Rightarrow> Inl e
                        | Inr xs \<Rightarrow>
                            (case loc_values xs x_val p of
                               [] \<Rightarrow> Inr st
                             | v # _ \<Rightarrow>
                                 (let deviation = \<bar>y_val - v\<bar> in
                                  if le_max_dev deviation max_dev
                                     \<and> lt_min_dev deviation (snd st)
                                  then Inr (Some pattern_col, Finite deviation)
                                  else Inr st)))))))"

text \<open>The inner loop over \<open>best_patterns.items()\<close>.\<close>

fun inner_loop ::
  "(string \<Rightarrow> real) \<Rightarrow> dataframe \<Rightarrow> dataframe \<Rightarrow> real \<Rightarrow> real
    \<Rightarrow> (string \<times> string) list \<Rightarrow> string option \<times> min_dev
    \<Rightarrow> py_error + (string option \<times> min_dev)" where
  "inner_loop margin training_df pattern_df x_val y_val [] st = Inr st"
| "inner_loop margin training_df pattern_df x_val y_val (item # items) st =
     (case inner_step margin training_df pattern_df x_val y_val st item of
        Inl e \<Rightarrow> Inl e
      | Inr st' \<Rightarrow> inner_loop margin training_df pattern_df x_val y_val items st')"

text \<open>
  The outer loop of lines 126 to 143 over the rows \<open>(x, y)\<close> of the test frame: an
  exception in any row ends the loop before anything is stored.
\<close>

fun forecast_loop ::
  "(string \<Rightarrow> real) \<Rightarrow> dataframe \<Rightarrow> dataframe \<Rightarrow> (string \<times> string) list
    \<Rightarrow> (real \<times> real) list \<Rightarrow> py_error + forecast_row list" where
  "forecast_loop margin training_df pattern_df best_patterns [] = Inr []"
| "forecast_loop margin training_df pattern_df best_patterns (row # rows) =
     (case inner_loop margin training_df pattern_df (fst row) (snd row) best_patterns
             (None, Infinity) of
        Inl e \<Rightarrow> Inl e
      | Inr st \<Rightarrow>
          (case forecast_loop margin training_df pattern_df best_patterns rows of
             Inl e \<Rightarrow> Inl e
           | Inr results \<Rightarrow> Inr ((fst row, snd row, snd st, fst st) # results)))"

text \<open>\<open>np.sqrt(2)\<close>, the margin of line 135, the same for every historical series.\<close>

definition np_sqrt2 :: "string \<Rightarrow> real" where
  "np_sqrt2 week_col = sqrt 2"

text \<open>The rows of the test frame, as \<open>iterrows\<close> yields them, read at \<open>"x"\<close> and \<open>"y"\<close>.\<close>

definition test_rows :: "dataframe \<Rightarrow> py_error + (real \<times> real) list" where
  "test_rows test_sales_df =
     (case getitem test_sales_df ''x'' of
        Inl e \<Rightarrow> Inl e
      | Inr xs \<Rightarrow>
          (case getitem test_sales_df ''y'' of
             Inl e \<Rightarrow> Inl e
           | Inr ys \<Rightarrow> Inr (zip xs ys)))"

text \<open>
  The body of the \<open>try\<close> block, lines 113 to 147, from the test frame already parsed
  and the two tables as \<open>read_sales_table\<close> returns them: the exception raised, or
  the rows stored as table \<open>sales_forecast\<close>.
\<close>

definition predict_body ::
  "dataframe \<Rightarrow> dataframe option \<Rightarrow> dataframe option \<Rightarrow> py_error + forecast_row list" where
  "predict_body test_sales_df training_df pattern_df =
     (if ''x'' \<notin> set (columns test_sales_df) \<or> ''y'' \<notin> set (columns test_sales_df)
      then Inl (InvalidSalesDataError (''Missing required columns 'x' or 'y'' @ [CHR 0x27]))
      else
        (case identify_best_sales_patterns training_df pattern_df of
           Inl e \<Rightarrow> Inl e
         | Inr logged_best \<Rightarrow>
             (case pattern_df of
                None \<Rightarrow> Inl (InvalidSalesDataError ''Missing pattern/historical data.'')
              | Some p \<Rightarrow>
                  (case training_df of
                     None \<Rightarrow> Inl (InvalidSalesDataError ''Missing pattern/historical data.'')
                   | Some t \<Rightarrow>
                       (case test_rows test_sales_df of
                          Inl e \<Rightarrow> Inl e
                        | Inr rows \<Rightarrow> forecast_loop np_sqrt2 t p (snd logged_best) rows)))))"

text \<open>
  What a call of \<open>load_and_predict_weekly_sales\<close> leaves behind: it always returns
  normally (both \<open>except\<close> clauses only log), with the table it stored, if any, and the
  kind of the message it logged last.
\<close>

datatype logged = Info | Validation_error | Unexpected_error

record outcome =
  stored :: "forecast_row list option"
  logged :: logged

definition load_and_predict_weekly_sales ::
  "dataframe \<Rightarrow> dataframe option \<Rightarrow> dataframe option \<Rightarrow> outcome" where
  "load_and_predict_weekly_sales test_sales_df training_df pattern_df =
     (case predict_body test_sales_df training_df pattern_df of
        Inr results \<Rightarrow> \<lparr>stored = Some results, logged = Info\<rparr>
      | Inl (InvalidSalesDataError msg) \<Rightarrow> \<lparr>stored = None, logged = Validation_error\<rparr>
      | Inl e \<Rightarrow> \<lparr>stored = None, logged = Unexpected_error\<rparr>)"

section \<open>The formulas of the specification\<close>

text \<open>The series a table holds under a name; the empty series when it holds none.\<close>

definition col :: "dataframe \<Rightarrow> string \<Rightarrow> real list" where
  "col df c = (case map_of df c of None \<Rightarrow> [] | Some s \<Rightarrow> s)"

text \<open>Row alignment: every series of both tables has the same \<open>n\<close> rows.\<close>

definition aligned :: "nat \<Rightarrow> dataframe \<Rightarrow> dataframe \<Rightarrow> bool" where
  "aligned n historical references \<longleftrightarrow>
     (\<forall>c \<in> set historical. length (snd c) = n) \<and> (\<forall>c \<in> set references. length (snd c) = n)"


text \<open>The largest pointwise distance between a historical series and a reference curve.\<close>

definition max_abs_diff :: "nat \<Rightarrow> dataframe \<Rightarrow> dataframe \<Rightarrow> string \<Rightarrow> string \<Rightarrow> real" where
  "max_abs_diff n historical references h r =
     Max ((\<lambda>i. \<bar>col historical h ! i - col references r ! i\<bar>) ` {..<n})"

text \<open>
  The value of reference curve \<open>r\<close> at \<open>x\<close>: that of the first row of the reference
  table whose \<open>x\<close> is exactly \<open>x\<close>; none when no row has it, or \<open>r\<close> is no column.
\<close>

definition reference_y_at :: "dataframe \<Rightarrow> string \<Rightarrow> real \<Rightarrow> real option" where
  "reference_y_at references r x =
     (if r \<in> set (columns references)
      then map_option snd
             (List.find (\<lambda>row. fst row = x) (zip (col references ''x'') (col references r)))
      else None)"

text \<open>
  The candidate that the pair \<open>(h, r)\<close> of \<open>best_patterns\<close> offers for the observation
  \<open>(x, y)\<close>: curve \<open>r\<close> with its deviation, when \<open>r\<close> has a value at \<open>x\<close> and the
  deviation is within \<open>max_dev(h)\<close>, the margin of \<open>h\<close> times the largest distance.
\<close>

definition spec_candidate ::
  "(string \<Rightarrow> real) \<Rightarrow> nat \<Rightarrow> dataframe \<Rightarrow> dataframe \<Rightarrow> real \<Rightarrow> real \<Rightarrow> string \<times> string
    \<Rightarrow> (string \<times> real) option" where
  "spec_candidate margin n historical references x y item =
     (case reference_y_at references (snd item) x of
        None \<Rightarrow> None
      | Some v \<Rightarrow>
          if \<bar>y - v\<bar> \<le> margin (fst item) * max_abs_diff n historical references (fst item) (snd item)
          then Some (snd item, \<bar>y - v\<bar>)
          else None)"


text \<open>
  Keeping the closest candidate: the one kept so far is replaced only by a candidate
  that is strictly closer.
\<close>

definition keep_closer ::
  "string option \<times> min_dev \<Rightarrow> string \<times> real \<Rightarrow> string option \<times> min_dev" where
  "keep_closer st c =
     (if lt_min_dev (snd c) (snd st) then (Some (fst c), Finite (snd c)) else st)"


section \<open>Columns, aligned series and the two reductions\<close>

lemma getitem_col: "c \<in> set (columns df) \<Longrightarrow> getitem df c = Inr (col df c)"
  unfolding getitem_def col_def columns_def
  by (auto split: option.splits simp: map_of_eq_None_iff)

lemma getitem_missing: "c \<notin> set (columns df) \<Longrightarrow> getitem df c = Inl (KeyError c)"
  unfolding getitem_def columns_def
  by (auto split: option.splits simp: map_of_eq_None_iff[symmetric])

lemma col_in_set: "c \<in> set (columns df) \<Longrightarrow> (c, col df c) \<in> set df"
  unfolding col_def columns_def
  by (auto split: option.splits simp: map_of_eq_None_iff dest: map_of_SomeD)

lemma aligned_length_historical:
  "aligned n t p \<Longrightarrow> c \<in> set (columns t) \<Longrightarrow> length (col t c) = n"
  using col_in_set[of c t] unfolding aligned_def by fastforce

lemma aligned_length_references:
  "aligned n t p \<Longrightarrow> c \<in> set (columns p) \<Longrightarrow> length (col p c) = n"
  using col_in_set[of c p] unfolding aligned_def by fastforce

lemma series_sub_same_length:
  "length a = length b \<Longrightarrow> series_sub a b = map Some (map2 (-) a b)"
  by (induction a b rule: list_induct2) auto




lemma max_loop_Some: "max_loop (Some c) (map Some vs) = Some (fold max vs c)"
  by (induction vs arbitrary: c) (auto simp: max_def)

lemma set_map2_nth:
  "length a = length b \<Longrightarrow> set (map2 f a b) = (\<lambda>i. f (a ! i) (b ! i)) ` {..<length a}"
proof (induction a b rule: list_induct2)
  case Nil
  then show ?case by simp
next
  case (Cons x xs y ys)
  have "{..<Suc (length xs)} = insert 0 (Suc ` {..<length xs})"
    by (simp add: lessThan_Suc_eq_insert_0)
  with Cons show ?case by (simp add: image_image)
qed

lemma py_max_abs_diff:
  assumes "length a = length b" and "a \<noteq> []"
  shows "py_max (map (map_option abs) (series_sub a b))
       = Inr (Some (Max ((\<lambda>i. \<bar>a ! i - b ! i\<bar>) ` {..<length a})))"
proof -
  let ?ds = "map2 (\<lambda>x y. \<bar>x - y\<bar>) a b"
  have eq: "map (map_option abs) (series_sub a b) = map Some ?ds"
    using assms(1) by (simp add: series_sub_same_length split_def)
  from assms obtain d rest where ds: "?ds = d # rest"
    by (cases a; cases b) auto
  have "py_max (map Some ?ds) = Inr (Some (fold max rest d))"
    unfolding ds py_max_def by (simp add: max_loop_Some)
  also have "fold max rest d = Max (set ?ds)"
    unfolding ds by (rule Max.set_eq_fold[symmetric])
  also have "set ?ds = (\<lambda>i. \<bar>a ! i - b ! i\<bar>) ` {..<length a}"
    using assms(1) by (rule set_map2_nth)
  finally show ?thesis using eq by simp
qed

section \<open>Selection of the best patterns\<close>









text \<open>
  Claim C5, as the code has it. When one of the two tables is missing,
  \<open>identify_best_sales_patterns\<close> returns the empty dictionary and logs one error; it
  raises nothing and returns no error value. When the historical table has no series
  (no column after the first), it returns the empty dictionary and logs nothing.
\<close>

theorem C5_missing_or_no_series:
  "(t = None \<or> p = None \<longrightarrow>
      identify_best_sales_patterns t p
        = Inr ([''Missing historical or pattern sales data.''], []))
   \<and> (tl (columns td) = [] \<longrightarrow> identify_best_sales_patterns (Some td) (Some pd) = Inr ([], []))"
  unfolding identify_best_sales_patterns_def by (auto split: option.splits)

theorem C5_missing_or_no_series_witness:
  "identify_best_sales_patterns None (Some [(''x'', [1, 2, 3]), (''r1'', [10, 20, 30])])
     = Inr ([''Missing historical or pattern sales data.''], [])
   \<and> identify_best_sales_patterns (Some [(''x'', [1, 2, 3])])
        (Some [(''x'', [1, 2, 3]), (''r1'', [10, 20, 30])]) = Inr ([], [])"
  using C5_missing_or_no_series
    [of None "Some [(''x'', [1, 2, 3]), (''r1'', [10, 20, 30])]" "[(''x'', [1, 2, 3])]"
        "[(''x'', [1, 2, 3]), (''r1'', [10, 20, 30])]"]
  by (simp add: columns_def)

text \<open>
  Claim C5 as stated fails: with a reference table that has no curve and a historical
  table that has a series, \<open>min\<close> of the empty \<open>errors\<close> raises \<open>ValueError\<close> out of the
  function; with a historical table without series, the empty dictionary is returned and
  nothing is logged.
\<close>

theorem C5_empty_tables_counterexample:
  "identify_best_sales_patterns (Some [(''x'', [1, 2, 3]), (''h1'', [10, 20, 30])])
     (Some [(''x'', [1, 2, 3])]) = Inl ValueError
   \<and> identify_best_sales_patterns (Some [(''x'', [1, 2, 3])])
        (Some [(''x'', [1, 2, 3]), (''r1'', [10, 20, 30])]) = Inr ([], [])"
  by (simp add: identify_best_sales_patterns_def columns_def py_min_key_def)

section \<open>Classification of the observations\<close>

lemma first_of_filter:
  "(case map snd (filter P zs) of [] \<Rightarrow> None | v # _ \<Rightarrow> Some v) = map_option snd (List.find P zs)"
  by (induction zs) auto

lemma loc_values_reference_y_at:
  assumes "r \<in> set (columns p)"
  shows "(case loc_values (col p ''x'') x (col p r) of [] \<Rightarrow> None | v # _ \<Rightarrow> Some v)
       = reference_y_at p r x"
  unfolding loc_values_def reference_y_at_def using assms by (simp add: first_of_filter)


lemma max_dev_of_aligned:
  assumes "0 < n" and "aligned n t p" and "h \<in> set (columns t)" and "r \<in> set (columns p)"
  shows "max_dev_of c (col t h) (col p r) = Inr (Some (c * max_abs_diff n t p h r))"
proof -
  have len: "length (col t h) = n" "length (col p r) = n"
    using assms by (simp_all add: aligned_length_historical aligned_length_references)
  with assms(1) have "col t h \<noteq> []" by auto
  with len show ?thesis
    unfolding max_dev_of_def max_abs_diff_def
    using py_max_abs_diff[of "col t h" "col p r"] by (simp add: mult.commute)
qed

lemma inner_step_candidate:
  assumes "0 < n" and "aligned n t p" and "''x'' \<in> set (columns p)"
    and "fst item \<in> set (columns t)"
  shows "inner_step m t p x y st item
       = Inr (case spec_candidate m n t p x y item of None \<Rightarrow> st | Some c \<Rightarrow> keep_closer st c)"
proof (cases "snd item \<in> set (columns p)")
  case False
  then show ?thesis
    unfolding inner_step_def spec_candidate_def reference_y_at_def by simp
next
  case True
  have y: "(case loc_values (col p ''x'') x (col p (snd item)) of [] \<Rightarrow> None | v # _ \<Rightarrow> Some v)
       = reference_y_at p (snd item) x"
    using True by (rule loc_values_reference_y_at)
  have d: "max_dev_of (m (fst item)) (col t (fst item)) (col p (snd item))
       = Inr (Some (m (fst item) * max_abs_diff n t p (fst item) (snd item)))"
    using assms(1,2,4) True by (rule max_dev_of_aligned)
  show ?thesis
  proof (cases "loc_values (col p ''x'') x (col p (snd item))")
    case Nil
    with y have "reference_y_at p (snd item) x = None" by simp
    with Nil True d assms(3,4) show ?thesis
      unfolding inner_step_def spec_candidate_def by (simp add: getitem_col)
  next
    case (Cons v vs)
    with y have "reference_y_at p (snd item) x = Some v" by simp
    with Cons True d assms(3,4) show ?thesis
      unfolding inner_step_def spec_candidate_def keep_closer_def
      by (simp add: getitem_col Let_def)
  qed
qed












lemma reference_y_at_first_row:
  assumes "r \<in> set (columns p)"
    and "length (col p ''x'') = n" and "length (col p r) = n"
    and "i < n" and "col p ''x'' ! i = x" and "\<forall>j<i. col p ''x'' ! j \<noteq> x"
  shows "reference_y_at p r x = Some (col p r ! i)"
proof -
  let ?zs = "zip (col p ''x'') (col p r)"
  have "List.find (\<lambda>row. fst row = x) ?zs = Some (?zs ! i)"
    unfolding find_Some_iff using assms(2-) by (intro exI[of _ i]) auto
  then show ?thesis
    unfolding reference_y_at_def using assms by simp
qed

text \<open>
  Claim C9. When row \<open>i\<close> is the first row of the reference table whose \<open>x\<close> is the
  observation's \<open>x\<close>, the deviation is taken against the curve's value in row \<open>i\<close>,
  whatever later rows have the same \<open>x\<close>.
\<close>

theorem C9_first_matching_row:
  assumes "0 < n" and "aligned n t p" and "''x'' \<in> set (columns p)"
    and "h \<in> set (columns t)" and "r \<in> set (columns p)"
    and "i < n" and "col p ''x'' ! i = x" and "\<forall>j<i. col p ''x'' ! j \<noteq> x"
  shows "inner_step np_sqrt2 t p x y st (h, r)
       = Inr (if \<bar>y - col p r ! i\<bar> \<le> sqrt 2 * max_abs_diff n t p h r
                 \<and> lt_min_dev \<bar>y - col p r ! i\<bar> (snd st)
              then (Some r, Finite \<bar>y - col p r ! i\<bar>)
              else st)"
proof -
  have "reference_y_at p r x = Some (col p r ! i)"
    using assms(5) aligned_length_references[OF assms(2,3)]
      aligned_length_references[OF assms(2,5)] assms(6-8)
    by (rule reference_y_at_first_row)
  moreover
  have "inner_step np_sqrt2 t p x y st (h, r)
      = Inr (case spec_candidate np_sqrt2 n t p x y (h, r) of
               None \<Rightarrow> st | Some c \<Rightarrow> keep_closer st c)"
    using assms(1-4) by (intro inner_step_candidate) simp_all
  ultimately show ?thesis
    unfolding spec_candidate_def keep_closer_def np_sqrt2_def by simp
qed

text \<open>
  The rows 1 and 2 both have \<open>x = 2\<close>, with the values 20 and 99: the observation
  \<open>(2, 20)\<close> is accepted with deviation 0, the observation \<open>(2, 99)\<close> is not accepted.
\<close>

theorem C9_first_matching_row_witness:
  "aligned 3 [(''x'', [1, 2, 2]), (''h1'', [10, 20, 99])] [(''x'', [1, 2, 2]), (''r1'', [10, 20, 99])]
   \<and> inner_step np_sqrt2 [(''x'', [1, 2, 2]), (''h1'', [10, 20, 99])]
       [(''x'', [1, 2, 2]), (''r1'', [10, 20, 99])] 2 20 (None, Infinity) (''h1'', ''r1'')
       = Inr (Some ''r1'', Finite 0)
   \<and> inner_step np_sqrt2 [(''x'', [1, 2, 2]), (''h1'', [10, 20, 99])]
       [(''x'', [1, 2, 2]), (''r1'', [10, 20, 99])] 2 99 (None, Infinity) (''h1'', ''r1'')
       = Inr (None, Infinity)"
proof -
  let ?t = "[(''x'', [1, 2, 2]), (''h1'', [10, 20, 99 :: real])]"
  let ?p = "[(''x'', [1, 2, 2]), (''r1'', [10, 20, 99 :: real])]"
  have a: "aligned 3 ?t ?p" by (simp add: aligned_def)
  have x: "''x'' \<in> set (columns ?p)" and h: "''h1'' \<in> set (columns ?t)"
    and r: "''r1'' \<in> set (columns ?p)"
    by (simp_all add: columns_def)
  have i: "(1 :: nat) < 3" by simp
  have at: "col ?p ''x'' ! 1 = 2" by (simp add: col_def)
  have first: "\<forall>j<1. col ?p ''x'' ! j \<noteq> 2" by (simp add: col_def)
  have s1: "inner_step np_sqrt2 ?t ?p 2 20 (None, Infinity) (''h1'', ''r1'')
      = Inr (Some ''r1'', Finite 0)"
    by (simp add: inner_step_def columns_def getitem_def max_dev_of_def py_max_def
        loc_values_def)
  have s2: "inner_step np_sqrt2 ?t ?p 2 99 (None, Infinity) (''h1'', ''r1'') = Inr (None, Infinity)"
    by (simp add: inner_step_def columns_def getitem_def max_dev_of_def py_max_def
        loc_values_def)
  have n: "(0 :: nat) < 3" by simp
  from C9_first_matching_row[OF n a x h r i at first, of 20 "(None, Infinity)"] a s1 s2
  show ?thesis by blast
qed

lemma inner_step_not_a_column:
  "snd item \<notin> set (columns p) \<Longrightarrow> inner_step m t p x y st item = Inr st"
  unfolding inner_step_def by simp

lemma inner_loop_filter_columns:
  "inner_loop m t p x y best st
     = inner_loop m t p x y (filter (\<lambda>item. snd item \<in> set (columns p)) best) st"
  by (induction best arbitrary: st) (simp_all add: inner_step_not_a_column split: sum.splits)

lemma forecast_loop_filter_columns:
  "forecast_loop m t p best rows
     = forecast_loop m t p (filter (\<lambda>item. snd item \<in> set (columns p)) best) rows"
proof (induction rows)
  case Nil
  show ?case by simp
next
  case (Cons row rows)
  show ?case
    by (simp only: forecast_loop.simps inner_loop_filter_columns[symmetric] Cons.IH[symmetric])
qed

text \<open>
  Claim C10. A pair of \<open>best_patterns\<close> whose curve is not a column of the reference table
  leaves the state of the inner loop unchanged and raises nothing; the loops give what
  they give on the other pairs alone.
\<close>

theorem C10_unknown_curve_skipped:
  "(snd item \<notin> set (columns p) \<longrightarrow> inner_step np_sqrt2 t p x y st item = Inr st)
   \<and> inner_loop np_sqrt2 t p x y best st
       = inner_loop np_sqrt2 t p x y (filter (\<lambda>item. snd item \<in> set (columns p)) best) st
   \<and> forecast_loop np_sqrt2 t p best rows
       = forecast_loop np_sqrt2 t p (filter (\<lambda>item. snd item \<in> set (columns p)) best) rows"
  using inner_step_not_a_column inner_loop_filter_columns forecast_loop_filter_columns
  by blast

text \<open>
  The pair \<open>(h0, gone)\<close> names neither a historical series nor a curve; the pair after it
  still yields its candidate.
\<close>

theorem C10_unknown_curve_skipped_witness:
  "''gone'' \<notin> set (columns [(''x'', [1, 2, 3]), (''r1'', [10, 20, 30])])
   \<and> inner_step np_sqrt2 [(''x'', [1, 2, 3]), (''h1'', [10, 20, 30])]
       [(''x'', [1, 2, 3]), (''r1'', [10, 20, 30])] 2 20 (None, Infinity) (''h0'', ''gone'')
       = Inr (None, Infinity)
   \<and> forecast_loop np_sqrt2 [(''x'', [1, 2, 3]), (''h1'', [10, 20, 30])]
       [(''x'', [1, 2, 3]), (''r1'', [10, 20, 30])] [(''h0'', ''gone''), (''h1'', ''r1'')] [(2, 20)]
       = Inr [(2, 20, Finite 0, Some ''r1'')]"
proof -
  let ?t = "[(''x'', [1, 2, 3]), (''h1'', [10, 20, 30 :: real])]"
  let ?p = "[(''x'', [1, 2, 3]), (''r1'', [10, 20, 30 :: real])]"
  have g: "''gone'' \<notin> set (columns ?p)" by (simp add: columns_def)
  have s: "inner_step np_sqrt2 ?t ?p 2 20 (None, Infinity) (''h0'', ''gone'') = Inr (None, Infinity)"
    by (simp add: inner_step_def columns_def)
  have r: "forecast_loop np_sqrt2 ?t ?p [(''h0'', ''gone''), (''h1'', ''r1'')] [(2, 20)]
      = Inr [(2, 20, Finite 0, Some ''r1'')]"
    by (simp add: inner_step_def columns_def getitem_def max_dev_of_def py_max_def
        loc_values_def)
  from C10_unknown_curve_skipped
    [of "(''h0'', ''gone'')" ?p ?t 2 20 "(None, Infinity)" "[(''h0'', ''gone''), (''h1'', ''r1'')]"
        "[(2, 20)]"] g s r
  show ?thesis by blast
qed













section \<open>The exceptions of the forecast\<close>

lemma getitem_raises: "getitem df c = Inl e \<Longrightarrow> e = KeyError c"
  unfolding getitem_def by (simp split: option.splits)

lemma errors_dict_raises:
  "errors_dict t p w cs acc = Inl e \<Longrightarrow> \<exists>c. e = KeyError c"
  by (induction cs arbitrary: acc) (auto split: sum.splits dest: getitem_raises)

lemma py_min_key_raises: "py_min_key es = Inl e \<Longrightarrow> e = ValueError"
  unfolding py_min_key_def by (simp split: list.splits)

lemma best_loop_raises:
  "best_loop t p ws acc = Inl e \<Longrightarrow> e = ValueError \<or> (\<exists>c. e = KeyError c)"
  by (induction ws arbitrary: acc)
     (auto split: sum.splits dest: errors_dict_raises py_min_key_raises)

lemma identify_raises:
  "identify_best_sales_patterns t p = Inl e \<Longrightarrow> e = ValueError \<or> (\<exists>c. e = KeyError c)"
  unfolding identify_best_sales_patterns_def
  by (auto split: option.splits sum.splits dest: best_loop_raises)

lemma max_dev_of_raises: "max_dev_of c w p = Inl e \<Longrightarrow> e = ValueError"
  unfolding max_dev_of_def py_max_def by (simp split: list.splits)

lemma inner_step_raises:
  "inner_step m t p x y st item = Inl e \<Longrightarrow> e = ValueError \<or> (\<exists>c. e = KeyError c)"
  unfolding inner_step_def Let_def
  by (auto split: if_splits sum.splits list.splits dest: getitem_raises max_dev_of_raises)

lemma inner_loop_raises:
  "inner_loop m t p x y items st = Inl e \<Longrightarrow> e = ValueError \<or> (\<exists>c. e = KeyError c)"
  by (induction items arbitrary: st) (auto split: sum.splits dest: inner_step_raises)

lemma forecast_loop_raises:
  "forecast_loop m t p best rows = Inl e \<Longrightarrow> e = ValueError \<or> (\<exists>c. e = KeyError c)"
  by (induction rows) (auto split: sum.splits dest: inner_loop_raises)

lemma test_rows_present:
  "''x'' \<in> set (columns df) \<Longrightarrow> ''y'' \<in> set (columns df) \<Longrightarrow> \<exists>rows. test_rows df = Inr rows"
  unfolding test_rows_def by (simp add: getitem_col)

text \<open>
  Claim C6, as the code has it. The body of \<open>load_and_predict_weekly_sales\<close> raises
  \<open>InvalidSalesDataError\<close> exactly when the test frame lacks the column \<open>x\<close> or \<open>y\<close>, or
  one of the two tables is missing. The columns are checked first: without them no row is
  processed, nothing is stored and a validation error is logged.
\<close>

theorem C6_validation_error:
  "((\<exists>msg. predict_body test t p = Inl (InvalidSalesDataError msg))
      \<longleftrightarrow> (''x'' \<notin> set (columns test) \<or> ''y'' \<notin> set (columns test) \<or> t = None \<or> p = None))
   \<and> (''x'' \<notin> set (columns test) \<or> ''y'' \<notin> set (columns test) \<longrightarrow>
        load_and_predict_weekly_sales test t p = \<lparr>stored = None, logged = Validation_error\<rparr>)"
proof -
  have missing: "\<exists>msg. predict_body test t p = Inl (InvalidSalesDataError msg)"
    if "''x'' \<notin> set (columns test) \<or> ''y'' \<notin> set (columns test)"
    using that unfolding predict_body_def by auto
  have absent: "\<exists>msg. predict_body test t p = Inl (InvalidSalesDataError msg)"
    if "''x'' \<in> set (columns test)" and "''y'' \<in> set (columns test)" and "t = None \<or> p = None"
    using that unfolding predict_body_def identify_best_sales_patterns_def
    by (auto split: option.splits)
  have other: "predict_body test t p \<noteq> Inl (InvalidSalesDataError msg)"
    if "''x'' \<in> set (columns test)" and "''y'' \<in> set (columns test)"
      and "t \<noteq> None" and "p \<noteq> None" for msg
  proof
    assume raised: "predict_body test t p = Inl (InvalidSalesDataError msg)"
    from that obtain td pd where t: "t = Some td" and p: "p = Some pd" by auto
    from test_rows_present[OF that(1,2)] obtain rows where rows: "test_rows test = Inr rows"
      by blast
    show False
    proof (cases "identify_best_sales_patterns t p")
      case (Inl e)
      with raised that(1,2) have "e = InvalidSalesDataError msg"
        unfolding predict_body_def by simp
      with identify_raises[OF Inl] show False by auto
    next
      case (Inr lb)
      with raised that(1,2) t p rows
      have "forecast_loop np_sqrt2 td pd (snd lb) rows = Inl (InvalidSalesDataError msg)"
        unfolding predict_body_def by simp
      from forecast_loop_raises[OF this] show False by auto
    qed
  qed
  have stored: "load_and_predict_weekly_sales test t p
      = \<lparr>stored = None, logged = Validation_error\<rparr>"
    if "''x'' \<notin> set (columns test) \<or> ''y'' \<notin> set (columns test)"
    using that unfolding load_and_predict_weekly_sales_def predict_body_def by auto
  from missing absent other stored show ?thesis by blast
qed

text \<open>Scenario 4: a test frame without the column \<open>y\<close>.\<close>

theorem C6_validation_error_witness:
  "''y'' \<notin> set (columns [(''x'', [2])])
   \<and> predict_body [(''x'', [2])]
        (Some [(''x'', [1, 2, 3]), (''h1'', [10, 20, 30])])
        (Some [(''x'', [1, 2, 3]), (''r1'', [10, 20, 30])])
       = Inl (InvalidSalesDataError (''Missing required columns 'x' or 'y'' @ [CHR 0x27]))
   \<and> load_and_predict_weekly_sales [(''x'', [2])]
        (Some [(''x'', [1, 2, 3]), (''h1'', [10, 20, 30])])
        (Some [(''x'', [1, 2, 3]), (''r1'', [10, 20, 30])])
       = \<lparr>stored = None, logged = Validation_error\<rparr>"
proof -
  have y: "''y'' \<notin> set (columns [(''x'', [2])])" by (simp add: columns_def)
  have b: "predict_body [(''x'', [2])]
        (Some [(''x'', [1, 2, 3]), (''h1'', [10, 20, 30])])
        (Some [(''x'', [1, 2, 3]), (''r1'', [10, 20, 30])])
       = Inl (InvalidSalesDataError (''Missing required columns 'x' or 'y'' @ [CHR 0x27]))"
    by (simp add: predict_body_def columns_def)
  from C6_validation_error[of "[(''x'', [2])]"
      "Some [(''x'', [1, 2, 3]), (''h1'', [10, 20, 30])]"
      "Some [(''x'', [1, 2, 3]), (''r1'', [10, 20, 30])]"] y b
  show ?thesis by blast
qed

text \<open>
  Claim C6 as stated fails in its "only if": the test frame has both columns, the
  historical table is missing, and \<open>InvalidSalesDataError\<close> is raised all the same.
\<close>

theorem C6_missing_table_counterexample:
  "''x'' \<in> set (columns [(''x'', [2]), (''y'', [20])])
   \<and> ''y'' \<in> set (columns [(''x'', [2]), (''y'', [20])])
   \<and> predict_body [(''x'', [2]), (''y'', [20])] None
        (Some [(''x'', [1, 2, 3]), (''r1'', [10, 20, 30])])
       = Inl (InvalidSalesDataError ''Missing pattern/historical data.'')
   \<and> load_and_predict_weekly_sales [(''x'', [2]), (''y'', [20])] None
        (Some [(''x'', [1, 2, 3]), (''r1'', [10, 20, 30])])
       = \<lparr>stored = None, logged = Validation_error\<rparr>"
  by (simp add: load_and_predict_weekly_sales_def predict_body_def columns_def
      identify_best_sales_patterns_def)

end
